theory Spec2Isabelle
  imports Main
begin

section \<open>Data model\<close>

text \<open>
  The program is \<^verbatim>\<open>python-backend/main.py\<close>: three request handlers of a web
  application that forward to one upstream service. The handlers are embedded as
  functions of the configuration, of the world they run in (the clock, the outcome of
  an outbound call, the rendering of a JSON response) and of the inbound request; each
  returns the list of outbound calls it made together with what it returned or raised.
  The module's one HTTP client, which lives across calls, is modelled after the
  handlers.
\<close>

type_synonym bytes = string

text \<open>
  A Python \<^verbatim>\<open>dict\<close> with string keys: the items in insertion order. Keys are
  Python strings and are compared exactly (\<^verbatim>\<open>"Authorization"\<close> and
  \<^verbatim>\<open>"authorization"\<close> are two keys).
\<close>

type_synonym 'v dict = "(string \<times> 'v) list"

text \<open>\<^verbatim>\<open>d.pop(k, None)\<close>: the entry under \<open>k\<close> is removed when it is there.\<close>

definition pop :: "string \<Rightarrow> 'v dict \<Rightarrow> 'v dict" where
  "pop k d = filter (\<lambda>item. fst item \<noteq> k) d"

text \<open>
  \<^verbatim>\<open>d[k] = v\<close>: an entry whose key is \<open>k\<close> gets the new value where it stands,
  otherwise the item is added at the end.
\<close>

fun setitem :: "string \<Rightarrow> 'v \<Rightarrow> 'v dict \<Rightarrow> 'v dict" where
  "setitem k v [] = [(k, v)]"
| "setitem k v (item # d) =
     (if fst item = k then (k, v) # d else item # setitem k v d)"

text \<open>
  JSON values as Python holds them after parsing. A Python \<^verbatim>\<open>float\<close> is a finite
  number \<open>m * 2 ^ e\<close> or one of the three values that the parser also reads
  (\<^verbatim>\<open>Infinity\<close>, \<^verbatim>\<open>-Infinity\<close>, \<^verbatim>\<open>NaN\<close>).
\<close>

datatype pyfloat = Finite int int | PosInf | NegInf | NaN

datatype json =
    JNull
  | JBool bool
  | JInt int
  | JFloat pyfloat
  | JString string
  | JArray "json list"
  | JObject "json dict"

datatype http_method = GET | POST | PUT | DELETE | PATCH

text \<open>
  The inbound request as the proxy handler reads it: \<open>headers\<close> is
  \<^verbatim>\<open>dict(request.headers)\<close>, \<open>query_params\<close> is
  \<^verbatim>\<open>dict(request.query_params)\<close>, \<open>body\<close> is \<^verbatim>\<open>await request.body()\<close>.
\<close>

record request =
  req_method :: http_method
  headers :: "string dict"
  query_params :: "string dict"
  body :: bytes

text \<open>
  An outbound call: which client makes it (the module's \<^verbatim>\<open>http_client\<close> or a
  client opened for the call), and the arguments it is given.
\<close>

datatype client = SharedClient | FreshClient

datatype payload = Content bytes | JsonPayload json

record http_call =
  via :: client
  call_method :: http_method
  url :: string
  out_headers :: "string dict"
  params :: "string dict"
  payload :: payload

text \<open>
  What a library call can raise, with the text \<^verbatim>\<open>str(e)\<close> gives:
  \<^verbatim>\<open>httpx.RequestError\<close> (and its subclasses), or any other \<^verbatim>\<open>Exception\<close>.
\<close>

datatype exception = RequestError string | OtherException string

fun str :: "exception \<Rightarrow> string" where
  "str (RequestError m) = m"
| "str (OtherException m) = m"

text \<open>
  The upstream's response. \<open>sent_body\<close> is the body as the upstream sent it, byte for
  byte. The other fields are what the handlers read from the client's response object:
  \<open>content\<close> is \<^verbatim>\<open>response.content\<close>, the body after the client has decoded it
  according to the response's \<^verbatim>\<open>content-encoding\<close> (the same bytes as \<open>sent_body\<close>
  when the upstream applied no encoding); \<open>resp_headers\<close> is
  \<^verbatim>\<open>dict(response.headers)\<close>, the headers as the upstream sent them; \<open>json_result\<close>
  is what \<^verbatim>\<open>response.json()\<close> returns or raises.
\<close>

record upstream_response =
  status_code :: int
  sent_body :: bytes
  content :: bytes
  resp_headers :: "string dict"
  json_result :: "exception + json"

text \<open>
  A naive \<^verbatim>\<open>datetime\<close> (no time zone attached) and its \<^verbatim>\<open>isoformat()\<close>:
  \<^verbatim>\<open>YYYY-MM-DDTHH:MM:SS\<close>, followed by \<^verbatim>\<open>.ffffff\<close> when the microsecond is
  not zero.
\<close>

record datetime =
  year :: nat
  month :: nat
  day :: nat
  hour :: nat
  minute :: nat
  second :: nat
  microsecond :: nat

fun decimal :: "nat \<Rightarrow> string" where
  "decimal n =
     (if n < 10 then [''0123456789'' ! n]
      else decimal (n div 10) @ [''0123456789'' ! (n mod 10)])"

declare decimal.simps [simp del]

definition zero_padded :: "nat \<Rightarrow> nat \<Rightarrow> string" where
  "zero_padded w n = replicate (w - length (decimal n)) (CHR ''0'') @ decimal n"

definition isoformat :: "datetime \<Rightarrow> string" where
  "isoformat d =
     zero_padded 4 (year d) @ ''-'' @ zero_padded 2 (month d) @ ''-'' @
     zero_padded 2 (day d) @ ''T'' @ zero_padded 2 (hour d) @ '':'' @
     zero_padded 2 (minute d) @ '':'' @ zero_padded 2 (second d) @
     (if microsecond d = 0 then [] else ''.'' @ zero_padded 6 (microsecond d))"

text \<open>
  The world a handler runs in. \<open>local_now\<close> is the reading of the host's clock in the
  host's local time zone, which is what \<^verbatim>\<open>datetime.now()\<close> returns; \<open>utc_now\<close> is
  the same instant in UTC. \<open>send\<close> is the outcome of an outbound call: the upstream's
  response, or the exception the client raises. \<open>json_render\<close> is what building
  \<^verbatim>\<open>JSONResponse(content=v, ...)\<close> does with \<open>v\<close>: the constructor renders the body
  at once, with \<^verbatim>\<open>allow_nan=False\<close>, and either succeeds (\<open>None\<close>) or raises.
\<close>

record world =
  local_now :: datetime
  utc_now :: datetime
  send :: "http_call \<Rightarrow> exception + upstream_response"
  json_render :: "json \<Rightarrow> exception option"

text \<open>The configuration read from the environment at start-up.\<close>

record config =
  SPRING_BACKEND_URL :: string
  API_KEY :: string

text \<open>
  What a handler hands back to the framework: a plain value, a response object
  (\<^verbatim>\<open>Response(content, status_code, headers)\<close> or
  \<^verbatim>\<open>JSONResponse(content, status_code)\<close>), an \<^verbatim>\<open>HTTPException(status_code, detail)\<close>
  it raised, or an exception it let through.
\<close>

datatype response =
    Response bytes int "string dict"
  | JSONResponse json int

datatype result =
    ReturnValue json
  | Return response
  | RaiseHTTPException int string
  | Raise exception

text \<open>
  The framework's part, as the response the caller receives: a returned value is sent as
  JSON with the route's default status 200, a \<^verbatim>\<open>JSONResponse\<close> is sent as it is, an
  \<^verbatim>\<open>HTTPException\<close> becomes a JSON body \<^verbatim>\<open>{"detail": detail}\<close> with its status,
  any other exception becomes the plain-text 500 of the server. For a
  \<^verbatim>\<open>Response\<close> that the handler built with headers of its own, what the caller
  receives depends on how the server treats those headers beside the body (a
  \<^verbatim>\<open>content-length\<close> that is not the length of the body, a
  \<^verbatim>\<open>content-encoding\<close> that the body does not have); nothing is said about it
  (\<open>None\<close>).
\<close>

fun respond :: "result \<Rightarrow> response option" where
  "respond (ReturnValue v) = Some (JSONResponse v 200)"
| "respond (Return (JSONResponse v s)) = Some (JSONResponse v s)"
| "respond (Return (Response b s h)) = None"
| "respond (RaiseHTTPException s d) =
     Some (JSONResponse (JObject [(''detail'', JString d)]) s)"
| "respond (Raise e) = Some (Response ''Internal Server Error'' 500 [])"

section \<open>The handlers\<close>

text \<open>\<^verbatim>\<open>health_check\<close> (lines 42 to 45): no outbound call, a fixed dictionary.\<close>

definition health_check :: "world \<Rightarrow> http_call list \<times> result" where
  "health_check w =
     ([], ReturnValue (JObject [(''status'', JString ''healthy''),
                                (''service'', JString ''python-backend'')]))"

text \<open>
  \<^verbatim>\<open>proxy_to_spring\<close> (lines 47 to 79). Only \<^verbatim>\<open>httpx.RequestError\<close> is caught;
  any other exception of the call leaves the handler.
\<close>

definition proxy_to_spring ::
  "config \<Rightarrow> world \<Rightarrow> request \<Rightarrow> string \<Rightarrow> http_call list \<times> result" where
  "proxy_to_spring cfg w request path =
     (let target = SPRING_BACKEND_URL cfg @ ''/'' @ path;
          body = body request;
          headers = pop ''host'' (headers request);
          headers = (if API_KEY cfg \<noteq> []
                     then setitem ''Authorization'' (''Bearer '' @ API_KEY cfg) headers
                     else headers);
          call = \<lparr>via = SharedClient, call_method = req_method request, url = target,
                  out_headers = headers, params = query_params request,
                  payload = Content body\<rparr>
      in case send w call of
           Inr response \<Rightarrow>
             ([call], Return (Response (content response) (status_code response)
                                       (resp_headers response)))
         | Inl (RequestError e) \<Rightarrow>
             ([call], RaiseHTTPException 500 (''Error communicating with backend: '' @ e))
         | Inl (OtherException e) \<Rightarrow> ([call], Raise (OtherException e)))"

text \<open>
  \<^verbatim>\<open>process_data\<close> (lines 81 to 106). Every \<^verbatim>\<open>Exception\<close> raised inside the
  \<^verbatim>\<open>try\<close> block is caught and turned into an \<^verbatim>\<open>HTTPException\<close> with status 500:
  by the call \<^verbatim>\<open>client.post\<close> (which also serializes the object it sends), by
  \<^verbatim>\<open>response.json()\<close>, or by the constructor of \<^verbatim>\<open>JSONResponse\<close>.
\<close>

definition process_data ::
  "config \<Rightarrow> world \<Rightarrow> json dict \<Rightarrow> http_call list \<times> result" where
  "process_data cfg w data =
     (let processed_data = [(''processed'', JBool True),
                            (''original'', JObject data),
                            (''timestamp'', JString (isoformat (local_now w)))];
          call = \<lparr>via = FreshClient, call_method = POST,
                  url = SPRING_BACKEND_URL cfg @ ''/api/processed-data'',
                  out_headers = [(''Content-Type'', ''application/json'')],
                  params = [], payload = JsonPayload (JObject processed_data)\<rparr>
      in case send w call of
           Inl e \<Rightarrow> ([call], RaiseHTTPException 500 (str e))
         | Inr response \<Rightarrow>
             (case json_result response of
                Inl e \<Rightarrow> ([call], RaiseHTTPException 500 (str e))
              | Inr v \<Rightarrow>
                  (case json_render w v of
                     Some e \<Rightarrow> ([call], RaiseHTTPException 500 (str e))
                   | None \<Rightarrow> ([call], Return (JSONResponse v (status_code response))))))"




section \<open>The shared client\<close>

text \<open>
  The forward handler makes its calls through \<^verbatim>\<open>http_client\<close>, one
  \<^verbatim>\<open>httpx.AsyncClient\<close> created when the module is loaded (line 35) and used by
  every call until shutdown. Such a client keeps the cookies that responses set and
  sends them with later requests. Of this only so much is modelled: a cookie that a
  response sets in a \<^verbatim>\<open>set-cookie\<close> header is kept under its name (its attributes,
  such as path, domain and expiry, are not looked at), and the cookies kept are sent
  in a \<^verbatim>\<open>Cookie\<close> header with every later call that does not bring one of its own.
  A client opened for one call, as in \<^verbatim>\<open>process_data\<close>, holds no cookies.
\<close>

type_synonym cookie_jar = "string dict"

fun cookie_header :: "cookie_jar \<Rightarrow> string" where
  "cookie_header [] = []"
| "cookie_header [(name, val)] = name @ ''='' @ val"
| "cookie_header ((name, val) # rest) = name @ ''='' @ val @ ''; '' @ cookie_header rest"

text \<open>
  The call as it leaves the client, as far as cookies go: the arguments of the call,
  with the \<^verbatim>\<open>Cookie\<close> header that the shared client adds from what it holds.
\<close>

definition as_sent :: "cookie_jar \<Rightarrow> http_call \<Rightarrow> http_call" where
  "as_sent jar c =
     (if jar \<noteq> [] \<and> via c = SharedClient
         \<and> map_of (out_headers c) ''cookie'' = None
         \<and> map_of (out_headers c) ''Cookie'' = None
      then c\<lparr>out_headers := out_headers c @ [(''Cookie'', cookie_header jar)]\<rparr>
      else c)"

text \<open>What the client holds after the outcome of a call.\<close>

definition keep :: "cookie_jar \<Rightarrow> exception + upstream_response \<Rightarrow> cookie_jar" where
  "keep jar outcome =
     (case outcome of
        Inl e \<Rightarrow> jar
      | Inr response \<Rightarrow>
          (case map_of (resp_headers response) ''set-cookie'' of
             None \<Rightarrow> jar
           | Some line \<Rightarrow>
               (let pair = takeWhile (\<lambda>ch. ch \<noteq> CHR '';'') line;
                    name = takeWhile (\<lambda>ch. ch \<noteq> CHR ''='') pair
                in setitem name (drop (length name + 1) pair) jar)))"

text \<open>
  The world of one execution of a handler while the shared client holds \<open>jar\<close>, made
  from a world \<open>w\<close> whose \<open>send\<close> is the upstream's answer to a call as it leaves the
  client.
\<close>

definition through_client :: "cookie_jar \<Rightarrow> world \<Rightarrow> world" where
  "through_client jar w = w\<lparr>send := (\<lambda>c. send w (as_sent jar c))\<rparr>"

text \<open>
  One execution of the forward handler while the shared client holds \<open>jar\<close>: what the
  handler gives, the calls as they leave the client, and what the client holds
  afterwards.
\<close>

definition forward_once ::
  "config \<Rightarrow> world \<Rightarrow> cookie_jar \<Rightarrow> request \<Rightarrow> string \<Rightarrow>
     (http_call list \<times> result) \<times> http_call list \<times> cookie_jar" where
  "forward_once cfg w jar request path =
     (let given = proxy_to_spring cfg (through_client jar w) request path;
          arriving = map (as_sent jar) (fst given)
      in (given, arriving, fold (\<lambda>c held. keep held (send w c)) arriving jar))"

section \<open>Example inputs\<close>

text \<open>
  Two clock readings one hour apart; upstream responses (a plain 404, a JSON 201, a
  gzip-encoded 200 whose 25 bytes decode to the 5 bytes \<^verbatim>\<open>hello\<close>, a 200 whose body
  is the JSON text \<^verbatim>\<open>NaN\<close>, a 200 that sets a cookie); an upstream that answers every
  call with a given response and one that cannot be reached; a renderer that refuses
  numbers that are not finite (the text of its exception varies with the version of
  Python); a host whose local time is one hour ahead of UTC and one whose local time is
  UTC; a configuration without and one with an API key; an inbound request with the
  header names in lower case, as the server hands them to the application; three
  requests to \<^verbatim>\<open>POST /api/process\<close>.
\<close>

definition noon :: datetime where
  "noon = \<lparr>year = 2024, month = 3, day = 9, hour = 12, minute = 0, second = 5,
           microsecond = 0\<rparr>"

definition one_pm :: datetime where
  "one_pm = \<lparr>year = 2024, month = 3, day = 9, hour = 13, minute = 0, second = 5,
             microsecond = 0\<rparr>"

definition page_missing :: upstream_response where
  "page_missing =
     \<lparr>status_code = 404, sent_body = ''no such page'', content = ''no such page'',
      resp_headers = [(''content-type'', ''text/plain'')],
      json_result = Inl (OtherException ''Expecting value: line 1 column 1 (char 0)'')\<rparr>"

definition created :: upstream_response where
  "created =
     \<lparr>status_code = 201, sent_body = ''[7]'', content = ''[7]'',
      resp_headers = [(''content-type'', ''application/json'')],
      json_result = Inr (JArray [JInt 7])\<rparr>"

definition gzipped :: upstream_response where
  "gzipped =
     \<lparr>status_code = 200,
      sent_body = [CHR 0x1F, CHR 0x8B, CHR 0x08, CHR 0x00, CHR 0x00, CHR 0x00, CHR 0x00,
                   CHR 0x00, CHR 0x02, CHR 0x03, CHR 0xCB, CHR 0x48, CHR 0xCD, CHR 0xC9,
                   CHR 0xC9, CHR 0x07, CHR 0x00, CHR 0x86, CHR 0xA6, CHR 0x10, CHR 0x36,
                   CHR 0x05, CHR 0x00, CHR 0x00, CHR 0x00],
      content = ''hello'',
      resp_headers = [(''content-type'', ''text/plain''), (''content-encoding'', ''gzip''),
                      (''content-length'', ''25'')],
      json_result = Inl (OtherException ''Expecting value: line 1 column 1 (char 0)'')\<rparr>"

definition not_a_number :: upstream_response where
  "not_a_number =
     \<lparr>status_code = 200, sent_body = ''NaN'', content = ''NaN'',
      resp_headers = [(''content-type'', ''application/json'')],
      json_result = Inr (JFloat NaN)\<rparr>"

definition greeting :: upstream_response where
  "greeting =
     \<lparr>status_code = 200, sent_body = ''hi'', content = ''hi'',
      resp_headers = [(''content-type'', ''text/plain''),
                      (''set-cookie'', ''session=abc; Path=/'')],
      json_result = Inl (OtherException ''Expecting value: line 1 column 1 (char 0)'')\<rparr>"

fun finite_numbers :: "json \<Rightarrow> bool" where
  "finite_numbers (JFloat (Finite m e)) = True"
| "finite_numbers (JFloat x) = False"
| "finite_numbers (JArray vs) = list_all finite_numbers vs"
| "finite_numbers (JObject items) = list_all (\<lambda>item. finite_numbers (snd item)) items"
| "finite_numbers v = True"

definition allow_nan_false :: "json \<Rightarrow> exception option" where
  "allow_nan_false v =
     (if finite_numbers v then None
      else Some (OtherException ''Out of range float values are not JSON compliant''))"

definition answers ::
  "upstream_response \<Rightarrow> http_call \<Rightarrow> exception + upstream_response" where
  "answers r c = Inr r"

definition refuses :: "http_call \<Rightarrow> exception + upstream_response" where
  "refuses c = Inl (RequestError ''All connection attempts failed'')"

definition host_ahead_of_utc ::
  "(http_call \<Rightarrow> exception + upstream_response) \<Rightarrow> world" where
  "host_ahead_of_utc s =
     \<lparr>local_now = one_pm, utc_now = noon, send = s, json_render = allow_nan_false\<rparr>"

definition host_on_utc ::
  "(http_call \<Rightarrow> exception + upstream_response) \<Rightarrow> world" where
  "host_on_utc s =
     \<lparr>local_now = noon, utc_now = noon, send = s, json_render = allow_nan_false\<rparr>"

definition open_config :: config where
  "open_config = \<lparr>SPRING_BACKEND_URL = ''http://localhost:8080'', API_KEY = []\<rparr>"

definition keyed_config :: config where
  "keyed_config = \<lparr>SPRING_BACKEND_URL = ''http://localhost:8080'', API_KEY = ''s3cret''\<rparr>"

definition inbound :: request where
  "inbound =
     \<lparr>req_method = GET,
      headers = [(''host'', ''gateway:5000''), (''authorization'', ''Basic abc''),
                 (''accept'', ''*/*'')],
      query_params = [(''page'', ''2'')], body = []\<rparr>"



section \<open>Dictionaries\<close>

lemma keys_pop: "fst ` set (pop k d) = fst ` set d - {k}"
  by (auto simp: pop_def)

lemma map_of_pop: "map_of (pop k d) k' = (if k' = k then None else map_of d k')"
  by (induction d) (auto simp: pop_def)

lemma keys_setitem: "fst ` set (setitem k v d) = insert k (fst ` set d)"
  by (induction d) auto

lemma map_of_setitem: "map_of (setitem k v d) = (map_of d)(k \<mapsto> v)"
  by (induction d) (auto simp: fun_eq_iff)

lemma distinct_pop: "distinct (map fst d) \<Longrightarrow> distinct (map fst (pop k d))"
  by (induction d) (auto simp: pop_def)

lemma distinct_setitem: "distinct (map fst d) \<Longrightarrow> distinct (map fst (setitem k v d))"
  by (induction d) (auto simp: keys_setitem)

section \<open>The outbound call of each handler\<close>

lemma proxy_calls:
  "fst (proxy_to_spring cfg w request path) =
     [\<lparr>via = SharedClient, call_method = req_method request,
       url = SPRING_BACKEND_URL cfg @ ''/'' @ path,
       out_headers = (if API_KEY cfg \<noteq> []
                      then setitem ''Authorization'' (''Bearer '' @ API_KEY cfg)
                             (pop ''host'' (headers request))
                      else pop ''host'' (headers request)),
       params = query_params request, payload = Content (body request)\<rparr>]"
  by (simp add: proxy_to_spring_def Let_def split: sum.split exception.split)

lemma proxy_unfold:
  assumes "fst (proxy_to_spring cfg w request path) = [c]"
  shows "proxy_to_spring cfg w request path =
           (case send w c of
              Inr response \<Rightarrow>
                ([c], Return (Response (content response) (status_code response)
                                       (resp_headers response)))
            | Inl (RequestError e) \<Rightarrow>
                ([c], RaiseHTTPException 500 (''Error communicating with backend: '' @ e))
            | Inl (OtherException e) \<Rightarrow> ([c], Raise (OtherException e)))"
proof -
  from assms have "c = \<lparr>via = SharedClient, call_method = req_method request,
       url = SPRING_BACKEND_URL cfg @ ''/'' @ path,
       out_headers = (if API_KEY cfg \<noteq> []
                      then setitem ''Authorization'' (''Bearer '' @ API_KEY cfg)
                             (pop ''host'' (headers request))
                      else pop ''host'' (headers request)),
       params = query_params request, payload = Content (body request)\<rparr>"
    by (simp add: proxy_calls)
  then show ?thesis
    by (simp add: proxy_to_spring_def Let_def split: sum.split exception.split)
qed

lemma process_calls:
  "fst (process_data cfg w data) =
     [\<lparr>via = FreshClient, call_method = POST,
       url = SPRING_BACKEND_URL cfg @ ''/api/processed-data'',
       out_headers = [(''Content-Type'', ''application/json'')], params = [],
       payload = JsonPayload (JObject [(''processed'', JBool True),
                                       (''original'', JObject data),
                                       (''timestamp'', JString (isoformat (local_now w)))])\<rparr>]"
  by (simp add: process_data_def Let_def split: sum.split option.split)

lemma process_unfold:
  assumes "fst (process_data cfg w data) = [c]"
  shows "process_data cfg w data =
           (case send w c of
              Inl e \<Rightarrow> ([c], RaiseHTTPException 500 (str e))
            | Inr response \<Rightarrow>
                (case json_result response of
                   Inl e \<Rightarrow> ([c], RaiseHTTPException 500 (str e))
                 | Inr v \<Rightarrow>
                     (case json_render w v of
                        Some e \<Rightarrow> ([c], RaiseHTTPException 500 (str e))
                      | None \<Rightarrow> ([c], Return (JSONResponse v (status_code response))))))"
proof -
  from assms have "c = \<lparr>via = FreshClient, call_method = POST,
       url = SPRING_BACKEND_URL cfg @ ''/api/processed-data'',
       out_headers = [(''Content-Type'', ''application/json'')], params = [],
       payload = JsonPayload (JObject [(''processed'', JBool True),
                                       (''original'', JObject data),
                                       (''timestamp'', JString (isoformat (local_now w)))])\<rparr>"
    by (simp add: process_calls)
  then show ?thesis
    by (simp add: process_data_def Let_def split: sum.split option.split)
qed

section \<open>The forward handler\<close>

text \<open>
  C1. For each of the methods GET, POST, PUT, DELETE, PATCH and every path string (empty,
  with slashes, with a question mark or not), the forward handler makes its outbound
  call to the upstream base URL followed by \<^verbatim>\<open>/\<close> and the path, character for
  character.
\<close>

theorem proxy_target_url:
  "map url (fst (proxy_to_spring cfg w (request\<lparr>req_method := M\<rparr>) P)) =
     [SPRING_BACKEND_URL cfg @ ''/'' @ P]"
  by (simp add: proxy_calls)

text \<open>
  C2. An upstream that compresses its body: it sends 25 bytes with
  \<^verbatim>\<open>content-encoding: gzip\<close> and \<^verbatim>\<open>content-length: 25\<close>. The forward handler
  returns the upstream's status and headers, and beside them the 5 bytes that the
  client has decoded, not the 25 bytes that the upstream sent: the body is not the
  upstream's, and the headers returned with it do not describe it.
\<close>

theorem proxy_returns_decoded_body:
  "snd (proxy_to_spring open_config (host_on_utc (answers gzipped)) inbound ''a/b'') =
     Return (Response ''hello'' 200
               [(''content-type'', ''text/plain''), (''content-encoding'', ''gzip''),
                (''content-length'', ''25'')])
   \<and> sent_body gzipped \<noteq> ''hello''
   \<and> length (sent_body gzipped) = 25"
proof -
  obtain c where c: "fst (proxy_to_spring open_config (host_on_utc (answers gzipped)) inbound
                            ''a/b'') = [c]"
    by (simp add: proxy_calls)
  have "send (host_on_utc (answers gzipped)) c = Inr gzipped"
    by (simp add: host_on_utc_def answers_def)
  then have "snd (proxy_to_spring open_config (host_on_utc (answers gzipped)) inbound ''a/b'') =
      Return (Response (content gzipped) (status_code gzipped) (resp_headers gzipped))"
    by (simp add: proxy_unfold [OF c])
  moreover have "content gzipped = ''hello''" and "status_code gzipped = 200"
    and "resp_headers gzipped =
           [(''content-type'', ''text/plain''), (''content-encoding'', ''gzip''),
            (''content-length'', ''25'')]"
    and "sent_body gzipped \<noteq> ''hello''" and "length (sent_body gzipped) = 25"
    by (simp_all add: gzipped_def)
  ultimately show ?thesis
    by simp
qed

text \<open>
  What the handler does return when the upstream answers, whatever the status code:
  the status and the headers of the upstream, and the body as the client read it.
\<close>

lemma proxy_returns_what_the_client_read:
  "\<exists>c. fst (proxy_to_spring cfg w request path) = [c]
       \<and> (\<forall>response. send w c = Inr response \<longrightarrow>
              snd (proxy_to_spring cfg w request path) =
                Return (Response (content response) (status_code response)
                                 (resp_headers response)))"
proof -
  obtain c where c: "fst (proxy_to_spring cfg w request path) = [c]"
    by (simp add: proxy_calls)
  have "snd (proxy_to_spring cfg w request path) =
          Return (Response (content response) (status_code response) (resp_headers response))"
    if "send w c = Inr response" for response
    using that by (simp add: proxy_unfold [OF c])
  with c show ?thesis
    by blast
qed

text \<open>
  C3. The outbound headers of the forward handler never have the key \<^verbatim>\<open>host\<close>,
  whatever the inbound request gave for it. When the API key is empty, the outbound
  headers are the inbound ones without \<^verbatim>\<open>host\<close>: same names, as they were
  written, same values, same order.
\<close>

theorem proxy_headers:
  assumes "fst (proxy_to_spring cfg w request path) = [c]"
  shows "''host'' \<notin> fst ` set (out_headers c)
         \<and> (API_KEY cfg = [] \<longrightarrow>
              out_headers c = filter (\<lambda>item. fst item \<noteq> ''host'') (headers request)
              \<and> (\<forall>k. k \<noteq> ''host'' \<longrightarrow>
                     map_of (out_headers c) k = map_of (headers request) k))"
proof -
  from assms have c: "out_headers c =
      (if API_KEY cfg \<noteq> []
       then setitem ''Authorization'' (''Bearer '' @ API_KEY cfg) (pop ''host'' (headers request))
       else pop ''host'' (headers request))"
    unfolding proxy_calls by auto
  have absent: "''host'' \<notin> fst ` set (out_headers c)"
    unfolding c by (simp add: keys_setitem keys_pop)
  have kept: "out_headers c = filter (\<lambda>item. fst item \<noteq> ''host'') (headers request)"
    if "API_KEY cfg = []"
    unfolding c using that by (simp add: pop_def)
  have same: "map_of (out_headers c) k = map_of (headers request) k"
    if "API_KEY cfg = []" and "k \<noteq> ''host''" for k
    unfolding c using that by (simp add: map_of_pop)
  from absent kept same show ?thesis by blast
qed

theorem proxy_headers_witness:
  "API_KEY open_config = []
   \<and> fst (proxy_to_spring open_config (host_on_utc refuses) inbound ''a/b'') =
       [\<lparr>via = SharedClient, call_method = GET, url = ''http://localhost:8080/a/b'',
         out_headers = [(''authorization'', ''Basic abc''), (''accept'', ''*/*'')],
         params = [(''page'', ''2'')], payload = Content []\<rparr>]
   \<and> ''host'' \<notin> fst ` set [(''authorization'', ''Basic abc''), (''accept'', ''*/*'')]
   \<and> map_of [(''authorization'', ''Basic abc''), (''accept'', ''*/*'')] ''accept'' =
       map_of (headers inbound) ''accept''"
proof -
  let ?c = "\<lparr>via = SharedClient, call_method = GET, url = ''http://localhost:8080/a/b'',
         out_headers = [(''authorization'', ''Basic abc''), (''accept'', ''*/*'')],
         params = [(''page'', ''2'')], payload = Content []\<rparr>"
  have key: "API_KEY open_config = []"
    by (simp add: open_config_def)
  have calls: "fst (proxy_to_spring open_config (host_on_utc refuses) inbound ''a/b'') = [?c]"
    by (simp add: proxy_calls open_config_def inbound_def pop_def)
  from proxy_headers [OF calls] key calls show ?thesis
    by (simp add: inbound_def)
qed

text \<open>
  C4. With the API key \<^verbatim>\<open>s3cret\<close> configured and an inbound request that carries
  \<^verbatim>\<open>authorization: Basic abc\<close> (the name in lower case, as the server delivers it),
  the outbound headers hold the inbound credential under \<^verbatim>\<open>authorization\<close> and the
  configured one under \<^verbatim>\<open>Authorization\<close>: the assignment adds a second entry and
  the inbound value is forwarded too.
\<close>

theorem proxy_keeps_inbound_authorization:
  "map out_headers (fst (proxy_to_spring keyed_config w inbound ''a/b'')) =
     [[(''authorization'', ''Basic abc''), (''accept'', ''*/*''),
       (''Authorization'', ''Bearer s3cret'')]]"
  by (simp add: proxy_calls keyed_config_def inbound_def pop_def)

text \<open>What the assignment does achieve: the key \<^verbatim>\<open>Authorization\<close> itself.\<close>

lemma proxy_sets_authorization_key:
  assumes "fst (proxy_to_spring cfg w request path) = [c]" and "API_KEY cfg \<noteq> []"
  shows "map_of (out_headers c) ''Authorization'' = Some (''Bearer '' @ API_KEY cfg)"
proof -
  from assms have "out_headers c =
      setitem ''Authorization'' (''Bearer '' @ API_KEY cfg) (pop ''host'' (headers request))"
    unfolding proxy_calls by auto
  then show ?thesis
    by (simp add: map_of_setitem)
qed

text \<open>
  C5. The forward handler makes exactly one outbound call. When that call fails with a
  transport error (a \<^verbatim>\<open>httpx.RequestError\<close>: connection refused, timeout, name
  resolution, TLS) described by \<open>d\<close>, the handler raises an HTTP exception with status
  500 and the caller receives the body
  \<^verbatim>\<open>{"detail": "Error communicating with backend: d"}\<close>.
\<close>

theorem proxy_transport_failure:
  "\<exists>c. fst (proxy_to_spring cfg w request path) = [c]
       \<and> (\<forall>d. send w c = Inl (RequestError d) \<longrightarrow>
              snd (proxy_to_spring cfg w request path) =
                RaiseHTTPException 500 (''Error communicating with backend: '' @ d)
              \<and> respond (snd (proxy_to_spring cfg w request path)) =
                Some (JSONResponse
                        (JObject [(''detail'',
                                   JString (''Error communicating with backend: '' @ d))])
                        500))"
proof -
  obtain c where c: "fst (proxy_to_spring cfg w request path) = [c]"
    by (simp add: proxy_calls)
  have "snd (proxy_to_spring cfg w request path) =
          RaiseHTTPException 500 (''Error communicating with backend: '' @ d)
        \<and> respond (snd (proxy_to_spring cfg w request path)) =
          Some (JSONResponse
                  (JObject [(''detail'',
                             JString (''Error communicating with backend: '' @ d))]) 500)"
    if "send w c = Inl (RequestError d)" for d
    using that by (simp add: proxy_unfold [OF c])
  with c show ?thesis
    by blast
qed

theorem proxy_transport_failure_witness:
  "respond (snd (proxy_to_spring open_config (host_on_utc refuses) inbound ''a/b'')) =
     Some (JSONResponse
             (JObject [(''detail'',
                        JString
                          ''Error communicating with backend: All connection attempts failed'')])
             500)
   \<and> length (fst (proxy_to_spring open_config (host_on_utc refuses) inbound ''a/b'')) = 1"
proof -
  let ?P = "proxy_to_spring open_config (host_on_utc refuses) inbound ''a/b''"
  from proxy_transport_failure [of open_config "host_on_utc refuses" inbound "''a/b''"]
  obtain c where c: "fst ?P = [c]"
    and fails: "\<And>d. send (host_on_utc refuses) c = Inl (RequestError d) \<Longrightarrow>
           respond (snd ?P) =
             Some (JSONResponse
                     (JObject [(''detail'',
                                JString (''Error communicating with backend: '' @ d))]) 500)"
    by blast
  have "send (host_on_utc refuses) c = Inl (RequestError ''All connection attempts failed'')"
    by (simp add: host_on_utc_def refuses_def)
  from fails [OF this] c show ?thesis
    by simp
qed

text \<open>
  C10, as the specification states it, fails: the calls of the forward handler go
  through the one client of the module, which is state shared by all calls. With the
  same configuration, the same inbound request and an upstream that gives the same
  response each time, the first execution sends the request without a cookie and
  leaves a cookie in the client; the second execution sends the request with it.
\<close>

theorem shared_client_changes_second_request:
  "fst (snd (forward_once open_config (host_on_utc (answers greeting)) [] inbound ''a/b'')) =
     [\<lparr>via = SharedClient, call_method = GET, url = ''http://localhost:8080/a/b'',
       out_headers = [(''authorization'', ''Basic abc''), (''accept'', ''*/*'')],
       params = [(''page'', ''2'')], payload = Content []\<rparr>]
   \<and> snd (snd (forward_once open_config (host_on_utc (answers greeting)) [] inbound ''a/b'')) =
     [(''session'', ''abc'')]
   \<and> fst (snd (forward_once open_config (host_on_utc (answers greeting))
                  [(''session'', ''abc'')] inbound ''a/b'')) =
     [\<lparr>via = SharedClient, call_method = GET, url = ''http://localhost:8080/a/b'',
       out_headers = [(''authorization'', ''Basic abc''), (''accept'', ''*/*''),
                      (''Cookie'', ''session=abc'')],
       params = [(''page'', ''2'')], payload = Content []\<rparr>]
   \<and> fst (snd (forward_once open_config (host_on_utc (answers greeting)) [] inbound ''a/b'')) \<noteq>
     fst (snd (forward_once open_config (host_on_utc (answers greeting))
                 (snd (snd (forward_once open_config (host_on_utc (answers greeting)) []
                              inbound ''a/b'')))
                 inbound ''a/b''))"
  by (simp add: forward_once_def Let_def proxy_calls as_sent_def keep_def open_config_def
        inbound_def pop_def host_on_utc_def answers_def greeting_def)

text \<open>
  C10, amended. The forward handler reads no clock, and what it hands to the shared
  client does not depend on what the client holds: in any two worlds, whatever their
  clocks and whatever the state of the client, the handler makes one call with the
  same arguments (method, URL, headers, query parameters, body); and when that call
  has the same outcome in both, the handler gives the same result in both.
\<close>

theorem proxy_deterministic:
  "\<exists>c. fst (proxy_to_spring cfg w1 request path) = [c]
       \<and> fst (proxy_to_spring cfg w2 request path) = [c]
       \<and> fst (fst (forward_once cfg w1 jar1 request path)) = [c]
       \<and> fst (fst (forward_once cfg w2 jar2 request path)) = [c]
       \<and> (send w1 c = send w2 c \<longrightarrow>
            proxy_to_spring cfg w1 request path = proxy_to_spring cfg w2 request path)"
proof -
  obtain c where c1: "fst (proxy_to_spring cfg w1 request path) = [c]"
    by (simp add: proxy_calls)
  then have c2: "fst (proxy_to_spring cfg w2 request path) = [c]"
    by (simp add: proxy_calls)
  from c1 have f1: "fst (fst (forward_once cfg w1 jar1 request path)) = [c]"
    by (simp add: forward_once_def Let_def proxy_calls)
  from c1 have f2: "fst (fst (forward_once cfg w2 jar2 request path)) = [c]"
    by (simp add: forward_once_def Let_def proxy_calls)
  have "proxy_to_spring cfg w1 request path = proxy_to_spring cfg w2 request path"
    if "send w1 c = send w2 c"
    using that by (simp add: proxy_unfold [OF c1] proxy_unfold [OF c2])
  with c1 c2 f1 f2 show ?thesis
    by blast
qed

theorem proxy_deterministic_witness:
  "local_now (through_client [] (host_on_utc (answers created))) \<noteq>
     local_now (through_client [(''session'', ''abc'')] (host_ahead_of_utc (answers created)))
   \<and> proxy_to_spring keyed_config (through_client [] (host_on_utc (answers created)))
       inbound ''a/b'' =
     proxy_to_spring keyed_config
       (through_client [(''session'', ''abc'')] (host_ahead_of_utc (answers created)))
       inbound ''a/b''"
proof -
  let ?w1 = "through_client [] (host_on_utc (answers created))"
  let ?w2 = "through_client [(''session'', ''abc'')] (host_ahead_of_utc (answers created))"
  from proxy_deterministic [of keyed_config ?w1 inbound "''a/b''" ?w2]
  obtain c where same: "send ?w1 c = send ?w2 c \<Longrightarrow>
      proxy_to_spring keyed_config ?w1 inbound ''a/b'' =
      proxy_to_spring keyed_config ?w2 inbound ''a/b''"
    by blast
  have "send ?w1 c = send ?w2 c"
    by (simp add: through_client_def host_on_utc_def host_ahead_of_utc_def answers_def)
  from same [OF this]
  have "proxy_to_spring keyed_config ?w1 inbound ''a/b'' =
        proxy_to_spring keyed_config ?w2 inbound ''a/b''" .
  moreover have "local_now ?w1 \<noteq> local_now ?w2"
    by (simp add: through_client_def host_on_utc_def host_ahead_of_utc_def noon_def
          one_pm_def)
  ultimately show ?thesis
    by simp
qed

section \<open>The processing handler\<close>

text \<open>
  C6, as the specification states it, fails twice. On a host whose local time is one
  hour ahead of UTC, the timestamp posted is not the UTC time. And when the upstream
  answers with status 200 and the JSON body \<^verbatim>\<open>NaN\<close>, which decodes, the handler does
  not return that body with status 200: building the response raises, and the
  exception is caught like any other.
\<close>

theorem process_timestamp_is_not_utc:
  "map payload (fst (process_data open_config (host_ahead_of_utc refuses) [(''x'', JInt 1)])) \<noteq>
     [JsonPayload
        (JObject [(''processed'', JBool True),
                  (''original'', JObject [(''x'', JInt 1)]),
                  (''timestamp'', JString (isoformat (utc_now (host_ahead_of_utc refuses))))])]
   \<and> json_result not_a_number = Inr (JFloat NaN)
   \<and> status_code not_a_number = 200
   \<and> snd (process_data open_config (host_on_utc (answers not_a_number)) [(''x'', JInt 1)]) \<noteq>
       Return (JSONResponse (JFloat NaN) 200)"
proof -
  obtain c where c: "fst (process_data open_config (host_on_utc (answers not_a_number))
                            [(''x'', JInt 1)]) = [c]"
    by (simp add: process_calls)
  have sent: "send (host_on_utc (answers not_a_number)) c = Inr not_a_number"
    by (simp add: host_on_utc_def answers_def)
  have parsed: "json_result not_a_number = Inr (JFloat NaN)"
    by (simp add: not_a_number_def)
  have refused: "json_render (host_on_utc (answers not_a_number)) (JFloat NaN) =
      Some (OtherException ''Out of range float values are not JSON compliant'')"
    by (simp add: host_on_utc_def allow_nan_false_def)
  have "snd (process_data open_config (host_on_utc (answers not_a_number))
               [(''x'', JInt 1)]) \<noteq> Return (JSONResponse (JFloat NaN) 200)"
    by (simp add: process_unfold [OF c] sent parsed refused)
  moreover have "map payload (fst (process_data open_config (host_ahead_of_utc refuses)
                                     [(''x'', JInt 1)])) \<noteq>
     [JsonPayload
        (JObject [(''processed'', JBool True),
                  (''original'', JObject [(''x'', JInt 1)]),
                  (''timestamp'', JString (isoformat (utc_now (host_ahead_of_utc refuses))))])]"
    by (simp add: process_calls host_ahead_of_utc_def isoformat_def one_pm_def noon_def
          zero_padded_def decimal.simps)
  ultimately show ?thesis
    by (simp add: not_a_number_def)
qed

text \<open>
  C6, amended. For every JSON object given to the processing handler, the one outbound
  call is a POST to the upstream base URL followed by \<^verbatim>\<open>/api/processed-data\<close>, with
  the header \<^verbatim>\<open>Content-Type: application/json\<close> and the JSON object
  \<^verbatim>\<open>{processed: true, original: payload, timestamp: t}\<close>, where \<open>t\<close> is the ISO-8601
  text of the host's local time, without offset. When the upstream answers, its body
  decodes as JSON and the decoded value can be rendered again, the handler returns
  that JSON value with the upstream's status code.
\<close>

theorem process_forwards_enriched:
  "fst (process_data cfg w data) =
     [\<lparr>via = FreshClient, call_method = POST,
       url = SPRING_BACKEND_URL cfg @ ''/api/processed-data'',
       out_headers = [(''Content-Type'', ''application/json'')], params = [],
       payload = JsonPayload (JObject [(''processed'', JBool True),
                                       (''original'', JObject data),
                                       (''timestamp'', JString (isoformat (local_now w)))])\<rparr>]
   \<and> (\<forall>c r v. fst (process_data cfg w data) = [c] \<and> send w c = Inr r
                \<and> json_result r = Inr v \<and> json_render w v = None \<longrightarrow>
          snd (process_data cfg w data) = Return (JSONResponse v (status_code r))
          \<and> respond (snd (process_data cfg w data)) =
              Some (JSONResponse v (status_code r)))"
proof -
  have "snd (process_data cfg w data) = Return (JSONResponse v (status_code r))
        \<and> respond (snd (process_data cfg w data)) = Some (JSONResponse v (status_code r))"
    if "fst (process_data cfg w data) = [c]" and "send w c = Inr r"
      and "json_result r = Inr v" and "json_render w v = None" for c r v
    using that by (simp add: process_unfold [OF that(1)])
  then show ?thesis
    using process_calls [of cfg w data] by blast
qed

theorem process_forwards_enriched_witness:
  "map payload (fst (process_data open_config (host_ahead_of_utc (answers created))
                       [(''x'', JInt 1)])) =
     [JsonPayload (JObject [(''processed'', JBool True),
                            (''original'', JObject [(''x'', JInt 1)]),
                            (''timestamp'', JString ''2024-03-09T13:00:05'')])]
   \<and> respond (snd (process_data open_config (host_ahead_of_utc (answers created))
                      [(''x'', JInt 1)])) =
       Some (JSONResponse (JArray [JInt 7]) 201)"
proof -
  let ?w = "host_ahead_of_utc (answers created)"
  let ?P = "process_data open_config ?w [(''x'', JInt 1)]"
  let ?c = "\<lparr>via = FreshClient, call_method = POST,
       url = SPRING_BACKEND_URL open_config @ ''/api/processed-data'',
       out_headers = [(''Content-Type'', ''application/json'')], params = [],
       payload = JsonPayload (JObject [(''processed'', JBool True),
                                       (''original'', JObject [(''x'', JInt 1)]),
                                       (''timestamp'', JString (isoformat (local_now ?w)))])\<rparr>"
  note inst = process_forwards_enriched [of open_config ?w "[(''x'', JInt 1)]"]
  from inst have calls: "fst ?P = [?c]"
    by (rule conjunct1)
  have sent: "send ?w ?c = Inr created"
    by (simp add: host_ahead_of_utc_def answers_def)
  have parsed: "json_result created = Inr (JArray [JInt 7])"
    by (simp add: created_def)
  have rendered: "json_render ?w (JArray [JInt 7]) = None"
    by (simp add: host_ahead_of_utc_def allow_nan_false_def)
  from inst calls sent parsed rendered
  have "respond (snd ?P) = Some (JSONResponse (JArray [JInt 7]) (status_code created))"
    by blast
  moreover have "isoformat (local_now ?w) = ''2024-03-09T13:00:05''"
    by (simp add: host_ahead_of_utc_def isoformat_def one_pm_def zero_padded_def decimal.simps)
  ultimately show ?thesis
    using calls by (simp add: created_def)
qed

text \<open>
  C7. The processing handler makes exactly one outbound call. When that call raises,
  for a network error or for any other reason (serializing the object it sends
  included), when the upstream's body does not decode as JSON, or when building the
  JSON response raises, the handler raises an HTTP exception with status 500 whose
  detail is the text of the exception, and the caller receives
  \<^verbatim>\<open>{"detail": text}\<close> with status 500; the kind of the exception plays no part and
  nothing else is returned.
\<close>

theorem process_failure:
  "\<exists>c. fst (process_data cfg w data) = [c]
       \<and> (\<forall>e. send w c = Inl e
                \<or> (\<exists>r. send w c = Inr r \<and> json_result r = Inl e)
                \<or> (\<exists>r v. send w c = Inr r \<and> json_result r = Inr v
                           \<and> json_render w v = Some e) \<longrightarrow>
              snd (process_data cfg w data) = RaiseHTTPException 500 (str e)
              \<and> respond (snd (process_data cfg w data)) =
                  Some (JSONResponse (JObject [(''detail'', JString (str e))]) 500))"
proof -
  obtain c where c: "fst (process_data cfg w data) = [c]"
    by (simp add: process_calls)
  have "snd (process_data cfg w data) = RaiseHTTPException 500 (str e)
        \<and> respond (snd (process_data cfg w data)) =
            Some (JSONResponse (JObject [(''detail'', JString (str e))]) 500)"
    if "send w c = Inl e
        \<or> (\<exists>r. send w c = Inr r \<and> json_result r = Inl e)
        \<or> (\<exists>r v. send w c = Inr r \<and> json_result r = Inr v \<and> json_render w v = Some e)"
    for e
    using that by (auto simp: process_unfold [OF c])
  with c show ?thesis
    by blast
qed

theorem process_failure_witness:
  "respond (snd (process_data open_config (host_on_utc refuses) [(''x'', JInt 1)])) =
     Some (JSONResponse (JObject [(''detail'', JString ''All connection attempts failed'')])
             500)
   \<and> respond (snd (process_data open_config (host_on_utc (answers page_missing))
                      [(''x'', JInt 1)])) =
     Some (JSONResponse
             (JObject [(''detail'', JString ''Expecting value: line 1 column 1 (char 0)'')])
             500)
   \<and> respond (snd (process_data open_config (host_on_utc (answers not_a_number))
                      [(''x'', JInt 1)])) =
     Some (JSONResponse
             (JObject [(''detail'',
                        JString ''Out of range float values are not JSON compliant'')])
             500)"
proof -
  let ?down = "host_on_utc refuses"
  let ?plain = "host_on_utc (answers page_missing)"
  let ?nan = "host_on_utc (answers not_a_number)"
  from process_failure [of open_config ?down "[(''x'', JInt 1)]"]
  obtain c where down: "\<And>e. send ?down c = Inl e \<Longrightarrow>
      respond (snd (process_data open_config ?down [(''x'', JInt 1)])) =
        Some (JSONResponse (JObject [(''detail'', JString (str e))]) 500)"
    by blast
  have "send ?down c = Inl (RequestError ''All connection attempts failed'')"
    by (simp add: host_on_utc_def refuses_def)
  from down [OF this]
  have first: "respond (snd (process_data open_config ?down [(''x'', JInt 1)])) =
      Some (JSONResponse (JObject [(''detail'', JString ''All connection attempts failed'')])
              500)"
    by simp
  from process_failure [of open_config ?plain "[(''x'', JInt 1)]"]
  obtain c' where undecodable: "\<And>e r. send ?plain c' = Inr r \<Longrightarrow> json_result r = Inl e \<Longrightarrow>
      respond (snd (process_data open_config ?plain [(''x'', JInt 1)])) =
        Some (JSONResponse (JObject [(''detail'', JString (str e))]) 500)"
    by blast
  have "send ?plain c' = Inr page_missing"
    by (simp add: host_on_utc_def answers_def)
  moreover have "json_result page_missing =
      Inl (OtherException ''Expecting value: line 1 column 1 (char 0)'')"
    by (simp add: page_missing_def)
  ultimately
  have second: "respond (snd (process_data open_config ?plain [(''x'', JInt 1)])) =
      Some (JSONResponse
              (JObject [(''detail'', JString (str (OtherException
                           ''Expecting value: line 1 column 1 (char 0)'')))]) 500)"
    by (rule undecodable)
  from process_failure [of open_config ?nan "[(''x'', JInt 1)]"]
  obtain c'' where unrenderable: "\<And>e r v. send ?nan c'' = Inr r \<Longrightarrow> json_result r = Inr v \<Longrightarrow>
      json_render ?nan v = Some e \<Longrightarrow>
      respond (snd (process_data open_config ?nan [(''x'', JInt 1)])) =
        Some (JSONResponse (JObject [(''detail'', JString (str e))]) 500)"
    by blast
  have "send ?nan c'' = Inr not_a_number"
    by (simp add: host_on_utc_def answers_def)
  moreover have "json_result not_a_number = Inr (JFloat NaN)"
    by (simp add: not_a_number_def)
  moreover have "json_render ?nan (JFloat NaN) =
      Some (OtherException ''Out of range float values are not JSON compliant'')"
    by (simp add: host_on_utc_def allow_nan_false_def)
  ultimately
  have third: "respond (snd (process_data open_config ?nan [(''x'', JInt 1)])) =
      Some (JSONResponse
              (JObject [(''detail'', JString (str (OtherException
                           ''Out of range float values are not JSON compliant'')))]) 500)"
    by (rule unrenderable)
  from first second third show ?thesis
    by simp
qed




section \<open>The health handler\<close>

text \<open>
  C8. In every world, whatever the upstream does, the health handler makes no outbound
  call and returns the fixed dictionary, which the caller receives with status 200.
\<close>

theorem health_check_fixed:
  "health_check w =
     ([], ReturnValue (JObject [(''status'', JString ''healthy''),
                                (''service'', JString ''python-backend'')]))
   \<and> respond (snd (health_check w)) =
       Some (JSONResponse (JObject [(''status'', JString ''healthy''),
                                    (''service'', JString ''python-backend'')]) 200)"
  by (simp add: health_check_def)

end
